theory Spec2Isabelle
  imports Complex_Main "HOL-Library.Word" "HOL-Library.Sublist" "HOL-Library.AList"
begin

section \<open>Errors\<close>

text \<open>
  Every value that the TypeScript sources or the browser functions they call can throw.
  \<open>Error m\<close> is \<^verbatim>\<open>new Error(m)\<close>; \<open>ErrorFrom m e\<close> is
  \<^verbatim>\<open>new Error(m + e.message)\<close>, the cause kept instead of its platform-specific text.
  The other constructors are the exceptions of the platform: \<open>RangeError\<close> from a typed-array
  constructor, \<open>NotSupportedError\<close> from \<^verbatim>\<open>createBuffer\<close>, \<open>IndexSizeError\<close> from
  \<^verbatim>\<open>getChannelData\<close>, \<open>InvalidStateError\<close> from a source node or a context in the wrong
  state, \<open>InvalidCharacterError\<close> from \<^verbatim>\<open>atob\<close>, \<open>SyntaxError\<close> from \<^verbatim>\<open>JSON.parse\<close>,
  \<open>TypeError\<close> from a property access on a missing value, \<open>ProviderError\<close> for a rejected
  provider call.
\<close>

datatype js_error =
    Error string
  | ErrorFrom string js_error
  | RangeError
  | NotSupportedError
  | InvalidCharacterError
  | InvalidStateError
  | IndexSizeError
  | SyntaxError
  | TypeError
  | ProviderError

section \<open>PCM decoding (services/geminiService.ts, decodeAudioData)\<close>

text \<open>
  A \<^verbatim>\<open>Float32Array\<close> element. \<open>NaN\<close> is what \<^verbatim>\<open>undefined / 32768.0\<close> evaluates to.
  A 16-bit integer divided by \<open>32768\<close> is exactly representable in single precision,
  so the numeric values are the exact quotients.
\<close>

datatype f32 = Num real | NaN

record AudioBuffer =
  numberOfChannels :: nat
  length_buf :: nat
  sampleRate :: nat
  channels :: "f32 list list"

text \<open>
  The limits of the platform's \<^verbatim>\<open>createBuffer\<close>: the Web Audio API leaves the supported
  channel count and sample-rate range to the implementation.
\<close>

record platform =
  maxChannels :: nat
  minSampleRate :: nat
  maxSampleRate :: nat

text \<open>
  \<^verbatim>\<open>new Int16Array(data.buffer)\<close>: a view of the bytes as 16-bit integers in the byte order of
  the platform (little-endian on every platform the app runs on). The constructor throws a
  \<open>RangeError\<close> when the byte length of the buffer is not a multiple of the element size.
  \<open>data\<close> is the whole buffer, as it is for the array that \<^verbatim>\<open>decode\<close> builds.
\<close>

fun int16_pairs :: "8 word list \<Rightarrow> 16 word list" where
  "int16_pairs (lo # hi # rest) = word_cat hi lo # int16_pairs rest"
| "int16_pairs _ = []"

definition Int16Array :: "8 word list \<Rightarrow> js_error + 16 word list" where
  "Int16Array bytes =
     (if length bytes mod 2 \<noteq> 0 then Inl RangeError else Inr (int16_pairs bytes))"

text \<open>
  \<^verbatim>\<open>ctx.createBuffer(numberOfChannels, length, sampleRate)\<close>: a zero-filled buffer, or
  \<open>NotSupportedError\<close> when a value is zero or outside its nominal range.
\<close>

definition createBuffer :: "platform \<Rightarrow> nat \<Rightarrow> nat \<Rightarrow> nat \<Rightarrow> js_error + AudioBuffer" where
  "createBuffer pf nch len rate =
     (if nch = 0 \<or> maxChannels pf < nch \<or> len = 0
         \<or> rate < minSampleRate pf \<or> maxSampleRate pf < rate
      then Inl NotSupportedError
      else Inr \<lparr>numberOfChannels = nch, length_buf = len, sampleRate = rate,
                channels = replicate nch (replicate len (Num 0))\<rparr>)"

text \<open>\<^verbatim>\<open>dataInt16[k] / 32768.0\<close>; reading past the end gives \<^verbatim>\<open>undefined\<close>, hence \<open>NaN\<close>.\<close>

definition sample_at :: "16 word list \<Rightarrow> nat \<Rightarrow> f32" where
  "sample_at dataInt16 k =
     (if k < length dataInt16 then Num (real_of_int (sint (dataInt16 ! k)) / 32768) else NaN)"

text \<open>
  The inner loop \<^verbatim>\<open>for (let i = 0; i < frameCount; i++)\<close>. \<open>frameCount\<close> is the
  JavaScript number \<^verbatim>\<open>dataInt16.length / numChannels\<close>, not rounded. A store past the end
  of a typed array is ignored, as \<open>list_update\<close> does.
\<close>

function fill_frames :: "16 word list \<Rightarrow> nat \<Rightarrow> nat \<Rightarrow> real \<Rightarrow> nat \<Rightarrow> f32 list \<Rightarrow> f32 list" where
  "fill_frames dataInt16 numChannels channel frameCount i channelData =
     (if real i < frameCount
      then fill_frames dataInt16 numChannels channel frameCount (Suc i)
             (channelData[i := sample_at dataInt16 (i * numChannels + channel)])
      else channelData)"
  by pat_completeness auto
termination
proof (relation "measure (\<lambda>(d, n, c, fc, i, cd). nat \<lceil>fc\<rceil> - i)")
  fix frameCount :: real and i :: nat
    and dataInt16 :: "16 word list" and numChannels channel :: nat and channelData :: "f32 list"
  assume "real i < frameCount"
  then have "int i < \<lceil>frameCount\<rceil>"
    by (simp add: less_ceiling_iff)
  then have "nat \<lceil>frameCount\<rceil> - Suc i < nat \<lceil>frameCount\<rceil> - i"
    by linarith
  then show "((dataInt16, numChannels, channel, frameCount, Suc i,
                channelData[i := sample_at dataInt16 (i * numChannels + channel)]),
              (dataInt16, numChannels, channel, frameCount, i, channelData))
             \<in> measure (\<lambda>(d, n, c, fc, i, cd). nat \<lceil>fc\<rceil> - i)"
    by simp
qed simp

text \<open>
  The outer loop \<^verbatim>\<open>for (let channel = 0; channel < numChannels; channel++)\<close>.
  \<^verbatim>\<open>buffer.getChannelData(channel)\<close> is a live view of the channel and throws for a channel
  the buffer does not have.
\<close>

function fill_channels :: "16 word list \<Rightarrow> nat \<Rightarrow> real \<Rightarrow> nat \<Rightarrow> AudioBuffer \<Rightarrow> js_error + AudioBuffer" where
  "fill_channels dataInt16 numChannels frameCount channel buffer =
     (if channel < numChannels
      then (if channel < length (channels buffer)
            then fill_channels dataInt16 numChannels frameCount (Suc channel)
                   (buffer\<lparr>channels := (channels buffer)
                       [channel := fill_frames dataInt16 numChannels channel frameCount 0
                                     (channels buffer ! channel)]\<rparr>)
            else Inl IndexSizeError)
      else Inr buffer)"
  by pat_completeness auto
termination
  by (relation "measure (\<lambda>(d, n, fc, c, b). n - c)") auto

text \<open>
  \<^verbatim>\<open>decodeAudioData(data, ctx, sampleRate, numChannels)\<close>. The length argument of
  \<^verbatim>\<open>createBuffer\<close> is an \<^verbatim>\<open>unsigned long\<close>: the number \<open>frameCount\<close> is truncated.
  With \<open>numChannels = 0\<close> the quotient is not a number in JavaScript; \<^verbatim>\<open>createBuffer\<close>
  rejects that channel count whatever the length is, so the value HOL gives the quotient
  there is never used.
\<close>

definition decodeAudioData :: "platform \<Rightarrow> 8 word list \<Rightarrow> nat \<Rightarrow> nat \<Rightarrow> js_error + AudioBuffer" where
  "decodeAudioData pf data rate numChannels =
     (case Int16Array data of
        Inl e \<Rightarrow> Inl e
      | Inr dataInt16 \<Rightarrow>
          (let frameCount = real (length dataInt16) / real numChannels in
           case createBuffer pf numChannels (nat \<lfloor>frameCount\<rfloor>) rate of
             Inl e \<Rightarrow> Inl e
           | Inr buffer \<Rightarrow> fill_channels dataInt16 numChannels frameCount 0 buffer))"


section \<open>Speech synthesis (services/geminiService.ts, generateSpeech)\<close>

text \<open>
  The provider's response, as far as the optional chain
  \<^verbatim>\<open>response.candidates?.[0]?.content?.parts?.[0]?.inlineData?.data\<close> reads it. A missing
  property is \<open>None\<close>.
\<close>

datatype blob = Blob (data: "string option")
datatype part = Part (inlineData: "blob option")
datatype resp_content = Content (parts: "part list option")
datatype candidate = Candidate (content: "resp_content option")
datatype tts_response = Response (candidates: "candidate list option")

text \<open>\<^verbatim>\<open>xs?.[0]\<close>: \<^verbatim>\<open>undefined\<close> for a missing or an empty array.\<close>

definition first_of :: "'a list option \<Rightarrow> 'a option" where
  "first_of xs = (case xs of None \<Rightarrow> None | Some [] \<Rightarrow> None | Some (x # _) \<Rightarrow> Some x)"

definition base64Audio :: "tts_response \<Rightarrow> string option" where
  "base64Audio response =
     (case first_of (candidates response) of
        None \<Rightarrow> None
      | Some c \<Rightarrow>
          (case content c of
             None \<Rightarrow> None
           | Some ct \<Rightarrow>
               (case first_of (parts ct) of
                  None \<Rightarrow> None
                | Some p \<Rightarrow> (case inlineData p of None \<Rightarrow> None | Some b \<Rightarrow> data b))))"

text \<open>
  What \<^verbatim>\<open>generateSpeech\<close> gets from outside: the configured API key, the outcome of the
  awaited provider call for a text, the platform's \<^verbatim>\<open>atob\<close>, whether creating and closing
  the decode-only context throws, and the limits of \<^verbatim>\<open>createBuffer\<close>.
\<close>

record speech_env =
  apiKey :: string
  generateContent :: "string \<Rightarrow> js_error + tts_response"
  atob :: "string \<Rightarrow> js_error + string"
  newDecodeContext :: "js_error option"
  closeDecodeContext :: "js_error option"
  limits :: platform

definition getAI :: "string \<Rightarrow> js_error + unit" where
  "getAI key =
     (if key = [] then Inl (Error ''Configuration Error: API Key is missing. Please check settings.'')
      else Inr ())"

text \<open>\<^verbatim>\<open>decode(base64)\<close>: the character codes of the binary string that \<^verbatim>\<open>atob\<close> returns.\<close>

definition decode :: "(string \<Rightarrow> js_error + string) \<Rightarrow> string \<Rightarrow> js_error + 8 word list" where
  "decode atob_fn base64 =
     (case atob_fn base64 of Inl e \<Rightarrow> Inl e | Inr binaryString \<Rightarrow> Inr (map of_char binaryString))"

text \<open>
  The body of the outer \<^verbatim>\<open>try\<close>. The inner \<^verbatim>\<open>finally\<close> closes the decode context whether
  decoding threw or not; an error of the \<^verbatim>\<open>close\<close> replaces the outcome of the block.
\<close>

definition generateSpeech_try :: "speech_env \<Rightarrow> string \<Rightarrow> string \<Rightarrow> js_error + AudioBuffer" where
  "generateSpeech_try env text language =
     (case getAI (apiKey env) of
        Inl e \<Rightarrow> Inl e
      | Inr _ \<Rightarrow>
          (case generateContent env text of
             Inl e \<Rightarrow> Inl e
           | Inr response \<Rightarrow>
               (case base64Audio response of
                  None \<Rightarrow> Inl (Error ''No audio data returned'')
                | Some b64 \<Rightarrow>
                    if b64 = [] then Inl (Error ''No audio data returned'')
                    else
                      (case newDecodeContext env of
                         Some e \<Rightarrow> Inl e
                       | None \<Rightarrow>
                           (let audioBuffer =
                                  (case decode (atob env) b64 of
                                     Inl e \<Rightarrow> Inl e
                                   | Inr bytes \<Rightarrow> decodeAudioData (limits env) bytes 24000 1)
                            in case closeDecodeContext env of
                                 Some e \<Rightarrow> Inl e
                               | None \<Rightarrow> audioBuffer)))))"

text \<open>The outer \<^verbatim>\<open>catch\<close> replaces whatever was thrown by one fixed error.\<close>

definition generateSpeech :: "speech_env \<Rightarrow> string \<Rightarrow> string \<Rightarrow> js_error + AudioBuffer" where
  "generateSpeech env text language =
     (case generateSpeech_try env text language of
        Inl e \<Rightarrow> Inl (Error ''Failed to generate speech.'')
      | Inr audioBuffer \<Rightarrow> Inr audioBuffer)"

section \<open>Image processing (services/geminiService.ts, processImage)\<close>

definition CRITICAL_KEYWORDS :: "string list" where
  "CRITICAL_KEYWORDS =
     [''dosage'', ''medicine'', ''warning'', ''danger'', ''caution'', ''prescription'',
      ''side effects'', ''emergency'']"

text \<open>
  A parsed JSON value. The cast \<^verbatim>\<open>JSON.parse(text) as ProcessedContent\<close> checks nothing, so
  \<open>data\<close> is whatever the provider's text parses to.
\<close>

datatype json =
    JNull
  | JBool bool
  | JNumber rat
  | JString string
  | JArray "json list"
  | JObject "(string \<times> json) list"

text \<open>
  \<^verbatim>\<open>toLowerCase\<close> on the ASCII letters; strings are sequences of 8-bit characters here, and
  the case mappings of the characters beyond ASCII are outside the model.
\<close>

definition lower_char :: "char \<Rightarrow> char" where
  "lower_char c =
     (let n = (of_char c :: nat) in if 65 \<le> n \<and> n \<le> 90 then char_of (n + 32) else c)"

definition toLowerCase :: "string \<Rightarrow> string" where
  "toLowerCase s = map lower_char s"

text \<open>\<^verbatim>\<open>s.includes(kw)\<close>: \<open>kw\<close> occurs in \<open>s\<close> as a contiguous substring.\<close>

definition includes_str :: "string \<Rightarrow> string \<Rightarrow> bool" where
  "includes_str s kw = sublist kw s"

text \<open>
  \<^verbatim>\<open>data.originalText.toLowerCase()\<close>: a \<open>TypeError\<close> unless \<open>data\<close> is an object whose
  \<open>originalText\<close> is a string.
\<close>

definition originalText_lower :: "json \<Rightarrow> js_error + string" where
  "originalText_lower d =
     (case d of
        JObject members \<Rightarrow>
          (case map_of members ''originalText'' of
             Some (JString s) \<Rightarrow> Inr (toLowerCase s)
           | _ \<Rightarrow> Inl TypeError)
      | _ \<Rightarrow> Inl TypeError)"

text \<open>\<^verbatim>\<open>data.requiresAudit = true\<close> on an object.\<close>

definition set_requiresAudit :: "json \<Rightarrow> json" where
  "set_requiresAudit d =
     (case d of
        JObject members \<Rightarrow> JObject (AList.update ''requiresAudit'' (JBool True) members)
      | _ \<Rightarrow> d)"

record vision_env =
  visionKey :: string
  visionText :: "js_error + string option"
  JSON_parse :: "string \<Rightarrow> js_error + json"

text \<open>
  The body of the \<^verbatim>\<open>try\<close> of \<^verbatim>\<open>processImage\<close>, \<open>visionText\<close> being the outcome of the awaited
  call and its \<^verbatim>\<open>response.text\<close>. \<^verbatim>\<open>CRITICAL_KEYWORDS.some\<close> calls its predicate at least once,
  so a \<open>data\<close> without a string \<open>originalText\<close> throws.
\<close>

definition processImage_try :: "vision_env \<Rightarrow> js_error + json" where
  "processImage_try env =
     (case getAI (visionKey env) of
        Inl e \<Rightarrow> Inl e
      | Inr _ \<Rightarrow>
          (case visionText env of
             Inl e \<Rightarrow> Inl e
           | Inr None \<Rightarrow> Inl (Error ''No text returned from Gemini'')
           | Inr (Some text) \<Rightarrow>
               if text = [] then Inl (Error ''No text returned from Gemini'')
               else
                 (case JSON_parse env text of
                    Inl e \<Rightarrow> Inl e
                  | Inr d \<Rightarrow>
                      (case originalText_lower d of
                         Inl e \<Rightarrow> Inl e
                       | Inr lowered \<Rightarrow>
                           (let isCritical = list_ex (\<lambda>kw. includes_str lowered kw) CRITICAL_KEYWORDS
                            in Inr (if isCritical then set_requiresAudit d else d))))))"

definition processImage :: "vision_env \<Rightarrow> js_error + json" where
  "processImage env =
     (case processImage_try env of
        Inl e \<Rightarrow> Inl (ErrorFrom ''Failed to process image. '' e)
      | Inr d \<Rightarrow> Inr d)"

text \<open>Reading a property of a returned value.\<close>

definition field :: "json \<Rightarrow> string \<Rightarrow> json option" where
  "field d k = (case d of JObject members \<Rightarrow> map_of members k | _ \<Rightarrow> None)"

section \<open>The reader view (components/TextDisplay.tsx)\<close>

datatype TextType = original | simplified | translated

record ProcessedContent =
  originalText :: string
  simplifiedText :: string
  translatedText :: string

record UserSettings =
  targetLanguage :: string

record TextDisplayProps =
  content_of :: ProcessedContent
  settings :: UserSettings

text \<open>The \<^verbatim>\<open>state\<close> attribute of an \<^verbatim>\<open>AudioContext\<close>.\<close>

datatype ctx_state = suspended | running | closed

text \<open>
  An asynchronous handler suspended at an \<^verbatim>\<open>await\<close>, with the variables its continuation
  still reads: \<^verbatim>\<open>handlePlay\<close> at \<^verbatim>\<open>await generateSpeech(...)\<close> (with \<open>type\<close> and
  \<open>cacheKey\<close>) or at \<^verbatim>\<open>await audioContextRef.current.resume()\<close> (with \<open>type\<close> and
  \<open>buffer\<close>), \<^verbatim>\<open>handleLanguageChange\<close> at \<^verbatim>\<open>await translateText(...)\<close>.
\<close>

datatype continuation =
    AwaitSpeech TextType string
  | AwaitResume TextType AudioBuffer
  | AwaitTranslate

text \<open>
  The component: its React state (\<open>activeAudioType\<close>, \<open>loadingAudioType\<close>, the translated
  text, \<open>currentLanguage\<close>, \<open>isTranslating\<close>), its three refs, and what it has done to the
  world: the buffer of every source node it started (a node's handle is its position), the
  handles whose \<^verbatim>\<open>stop()\<close> returned, the \<open>(text, language)\<close> of every
  \<^verbatim>\<open>generateSpeech\<close> call, the handlers suspended at an \<^verbatim>\<open>await\<close>, the alerts shown, and
  how many output contexts were created and how many \<^verbatim>\<open>close()\<close> calls were made.
  \<open>audioContextRef\<close> holds the state of the context it refers to, \<open>None\<close> for \<^verbatim>\<open>null\<close>.
  A handler reads the React state as committed by the events before it.
\<close>

record view =
  activeAudioType :: "TextType option"
  loadingAudioType :: "TextType option"
  translatedText_st :: string
  currentLanguage :: string
  isTranslating :: bool
  audioContextRef :: "ctx_state option"
  audioSourceRef :: "nat option"
  audioCache :: "string \<rightharpoonup> AudioBuffer"
  sources :: "AudioBuffer list"
  stopped :: "nat list"
  speechCalls :: "(string \<times> string) list"
  pending :: "continuation list"
  alerts :: nat
  contextsCreated :: nat
  closeCalls :: nat

text \<open>
  What the platform does when a handler asks: whether \<^verbatim>\<open>source.stop()\<close> throws, and whether
  \<^verbatim>\<open>new AudioContextClass({ sampleRate: 24000 })\<close> throws or in which state the new context
  starts.
\<close>

record outcomes =
  stopThrows :: "js_error option"
  newAudioContext :: "js_error + ctx_state"

definition initial_view :: "TextDisplayProps \<Rightarrow> view" where
  "initial_view p =
     \<lparr>activeAudioType = None, loadingAudioType = None,
      translatedText_st = translatedText (content_of p),
      currentLanguage = targetLanguage (settings p),
      isTranslating = False,
      audioContextRef = None, audioSourceRef = None, audioCache = Map.empty,
      sources = [], stopped = [], speechCalls = [], pending = [], alerts = 0,
      contextsCreated = 0, closeCalls = 0\<rparr>"

text \<open>
  \<^verbatim>\<open>stopAudio\<close>. The \<^verbatim>\<open>stop()\<close> call sits in \<^verbatim>\<open>try { ... } catch(e) {}\<close>: when it throws,
  the error is dropped and the two assignments after it run all the same.
\<close>

definition stopAudio :: "outcomes \<Rightarrow> view \<Rightarrow> view" where
  "stopAudio oc s =
     (case audioSourceRef s of
        None \<Rightarrow> s\<lparr>activeAudioType := None\<rparr>
      | Some h \<Rightarrow>
          (case stopThrows oc of
             None \<Rightarrow> s\<lparr>stopped := stopped s @ [h], audioSourceRef := None, activeAudioType := None\<rparr>
           | Some e \<Rightarrow> s\<lparr>audioSourceRef := None, activeAudioType := None\<rparr>))"

text \<open>The \<^verbatim>\<open>catch\<close> and \<^verbatim>\<open>finally\<close> of \<^verbatim>\<open>handlePlay\<close>: one alert, loading flag cleared.\<close>

definition playback_failed :: "view \<Rightarrow> view" where
  "playback_failed s = s\<lparr>alerts := Suc (alerts s), loadingAudioType := None\<rparr>"

text \<open>
  Lines 101 to 107 of \<^verbatim>\<open>handlePlay\<close> and its \<^verbatim>\<open>finally\<close>: a new source node bound to
  \<open>buffer\<close> is started and becomes the current one.
\<close>

definition startSource :: "TextType \<Rightarrow> AudioBuffer \<Rightarrow> view \<Rightarrow> view" where
  "startSource type buffer s =
     s\<lparr>sources := sources s @ [buffer],
       audioSourceRef := Some (length (sources s)),
       activeAudioType := Some type,
       loadingAudioType := None\<rparr>"

text \<open>
  Lines 92 to 99: the output context is created if the ref is empty, and resumed, which
  suspends the handler, if its state is \<open>suspended\<close>.
\<close>

definition resumeOrStart :: "TextType \<Rightarrow> AudioBuffer \<Rightarrow> view \<Rightarrow> view" where
  "resumeOrStart type buffer s =
     (if audioContextRef s = Some suspended
      then s\<lparr>pending := pending s @ [AwaitResume type buffer]\<rparr>
      else startSource type buffer s)"

definition playBuffer :: "outcomes \<Rightarrow> TextType \<Rightarrow> AudioBuffer \<Rightarrow> view \<Rightarrow> view" where
  "playBuffer oc type buffer s =
     (case audioContextRef s of
        None \<Rightarrow>
          (case newAudioContext oc of
             Inl e \<Rightarrow> playback_failed s
           | Inr st \<Rightarrow>
               resumeOrStart type buffer
                 (s\<lparr>audioContextRef := Some st, contextsCreated := Suc (contextsCreated s)\<rparr>))
      | Some _ \<Rightarrow> resumeOrStart type buffer s)"

definition TextType_str :: "TextType \<Rightarrow> string" where
  "TextType_str t =
     (case t of original \<Rightarrow> ''original'' | simplified \<Rightarrow> ''simplified''
      | translated \<Rightarrow> ''translated'')"

definition cacheKey :: "TextType \<Rightarrow> string \<Rightarrow> string" where
  "cacheKey type lang = (if type = translated then ''translated_'' @ lang else TextType_str type)"

text \<open>
  \<^verbatim>\<open>handlePlay(type, text)\<close> up to its first \<^verbatim>\<open>await\<close>. On a cache miss the
  \<^verbatim>\<open>generateSpeech\<close> call is issued and the handler is suspended.
\<close>

definition handlePlay :: "TextDisplayProps \<Rightarrow> outcomes \<Rightarrow> TextType \<Rightarrow> string \<Rightarrow> view \<Rightarrow> view" where
  "handlePlay p oc type text s =
     (if activeAudioType s = Some type then stopAudio oc s
      else
        (let s1 = stopAudio oc s in
         if text = [] then s1
         else
           (let s2 = s1\<lparr>loadingAudioType := Some type\<rparr>;
                key = cacheKey type (currentLanguage s)
            in case audioCache s2 key of
                 None \<Rightarrow>
                   s2\<lparr>speechCalls := speechCalls s2 @
                         [(text, if type = translated then currentLanguage s
                                 else targetLanguage (settings p))],
                      pending := pending s2 @ [AwaitSpeech type key]\<rparr>
               | Some buffer \<Rightarrow> playBuffer oc type buffer s2)))"

text \<open>\<^verbatim>\<open>handlePlay\<close> after \<^verbatim>\<open>await generateSpeech(...)\<close> has settled.\<close>

definition handlePlay_speech ::
  "outcomes \<Rightarrow> TextType \<Rightarrow> string \<Rightarrow> js_error + AudioBuffer \<Rightarrow> view \<Rightarrow> view" where
  "handlePlay_speech oc type key r s =
     (case r of
        Inl e \<Rightarrow> playback_failed s
      | Inr buffer \<Rightarrow> playBuffer oc type buffer (s\<lparr>audioCache := (audioCache s)(key \<mapsto> buffer)\<rparr>))"

text \<open>
  \<^verbatim>\<open>handlePlay\<close> after \<^verbatim>\<open>await audioContextRef.current.resume()\<close> has settled; a resumed
  context is running.
\<close>

definition handlePlay_resumed ::
  "TextType \<Rightarrow> AudioBuffer \<Rightarrow> js_error option \<Rightarrow> view \<Rightarrow> view" where
  "handlePlay_resumed type buffer r s =
     (case r of
        Some e \<Rightarrow> playback_failed s
      | None \<Rightarrow>
          startSource type buffer
            (if audioContextRef s = Some suspended then s\<lparr>audioContextRef := Some running\<rparr>
             else s))"

text \<open>\<^verbatim>\<open>handleLanguageChange\<close> up to \<^verbatim>\<open>await translateText(...)\<close>, and after it.\<close>

definition handleLanguageChange :: "outcomes \<Rightarrow> string \<Rightarrow> view \<Rightarrow> view" where
  "handleLanguageChange oc newLang s =
     (let s1 = stopAudio oc (s\<lparr>currentLanguage := newLang, isTranslating := True\<rparr>)
      in s1\<lparr>pending := pending s1 @ [AwaitTranslate]\<rparr>)"

definition handleLanguageChange_translated :: "js_error + string \<Rightarrow> view \<Rightarrow> view" where
  "handleLanguageChange_translated r s =
     (case r of
        Inl e \<Rightarrow> s\<lparr>isTranslating := False\<rparr>
      | Inr newText \<Rightarrow>
          s\<lparr>translatedText_st := newText,
            audioCache := (audioCache s)(''translated'' := None),
            isTranslating := False\<rparr>)"

text \<open>The cleanup of the effect, run when the view is torn down.\<close>

definition unmount :: "outcomes \<Rightarrow> view \<Rightarrow> view" where
  "unmount oc s =
     (let s1 = stopAudio oc s in
      case audioContextRef s1 of
        None \<Rightarrow> s1
      | Some st \<Rightarrow> s1\<lparr>audioContextRef := Some closed, closeCalls := Suc (closeCalls s1)\<rparr>)"

text \<open>
  What can happen to a mounted view: a click on a card's play button, a choice in the language
  selector, the promise of a suspended handler settling, the \<^verbatim>\<open>ended\<close> event of a started
  source (its \<^verbatim>\<open>onended\<close> clears \<open>activeAudioType\<close>), the platform suspending an idle context,
  and the teardown.
\<close>

datatype settlement =
    SpeechSettled "js_error + AudioBuffer"
  | ResumeSettled "js_error option"
  | TranslateSettled "js_error + string"

datatype event =
    Click_Play TextType string
  | Select_Language string
  | Settle nat settlement
  | Source_Ended nat
  | Platform_Suspend
  | Unmount

definition remove_nth :: "nat \<Rightarrow> 'a list \<Rightarrow> 'a list" where
  "remove_nth k xs = take k xs @ drop (Suc k) xs"

definition settle :: "outcomes \<Rightarrow> nat \<Rightarrow> settlement \<Rightarrow> view \<Rightarrow> view" where
  "settle oc k r s =
     (if k < length (pending s)
      then
        (let s1 = s\<lparr>pending := remove_nth k (pending s)\<rparr> in
         case (pending s ! k, r) of
           (AwaitSpeech type key, SpeechSettled x) \<Rightarrow> handlePlay_speech oc type key x s1
         | (AwaitResume type buffer, ResumeSettled x) \<Rightarrow> handlePlay_resumed type buffer x s1
         | (AwaitTranslate, TranslateSettled x) \<Rightarrow> handleLanguageChange_translated x s1
         | _ \<Rightarrow> s)
      else s)"

definition step :: "TextDisplayProps \<Rightarrow> outcomes \<times> event \<Rightarrow> view \<Rightarrow> view" where
  "step p oe s =
     (case oe of
        (oc, Click_Play type text) \<Rightarrow> handlePlay p oc type text s
      | (oc, Select_Language newLang) \<Rightarrow> handleLanguageChange oc newLang s
      | (oc, Settle k r) \<Rightarrow> settle oc k r s
      | (oc, Source_Ended h) \<Rightarrow> (if h < length (sources s) then s\<lparr>activeAudioType := None\<rparr> else s)
      | (oc, Platform_Suspend) \<Rightarrow>
          (if audioContextRef s = Some running then s\<lparr>audioContextRef := Some suspended\<rparr> else s)
      | (oc, Unmount) \<Rightarrow> unmount oc s)"

definition run :: "TextDisplayProps \<Rightarrow> (outcomes \<times> event) list \<Rightarrow> view \<Rightarrow> view" where
  "run p es s = fold (step p) es s"

text \<open>
  The playback state that the view shows: a card is playing when \<open>activeAudioType\<close> names it,
  loading when \<open>loadingAudioType\<close> names it.
\<close>

datatype playback = IDLE | LOADING TextType | PLAYING TextType

definition playback_state :: "view \<Rightarrow> playback" where
  "playback_state s =
     (case activeAudioType s of
        Some v \<Rightarrow> PLAYING v
      | None \<Rightarrow> (case loadingAudioType s of Some v \<Rightarrow> LOADING v | None \<Rightarrow> IDLE))"

text \<open>
  The value of the \<open>k\<close>-th sample of a byte buffer read as signed 16-bit little-endian
  integers: low byte first, two's complement.
\<close>

definition le_int16 :: "8 word list \<Rightarrow> nat \<Rightarrow> int" where
  "le_int16 bytes k = sint (word_cat (bytes ! (2 * k + 1)) (bytes ! (2 * k)) :: 16 word)"


text \<open>
  For the proofs about the output context: the part of the state that concerns it, the
  relation between the ref and the number of contexts created, and the states in which no
  play request was made yet.
\<close>

definition ctx_part :: "view \<Rightarrow> ctx_state option \<times> nat \<times> nat" where
  "ctx_part s = (audioContextRef s, contextsCreated s, closeCalls s)"



text \<open>
  For the proofs about play requests: the variants that are playing or in flight all belong
  to a set \<open>V\<close>, and a set loading flag means that a play request is in flight; and for the
  proofs about the cache: a key holds a buffer and no synthesis for that key is in flight.
\<close>

definition typed :: "TextType set \<Rightarrow> view \<Rightarrow> bool" where
  "typed V s \<longleftrightarrow>
     (\<forall>v. activeAudioType s = Some v \<longrightarrow> v \<in> V)
     \<and> (\<forall>c\<in>set (pending s).
           case c of AwaitSpeech v key \<Rightarrow> v \<in> V | AwaitResume v b \<Rightarrow> v \<in> V | AwaitTranslate \<Rightarrow> True)"



section \<open>Properties of the decoder\<close>

declare fill_frames.simps [simp del] fill_channels.simps [simp del]

lemma length_int16_pairs: "length (int16_pairs bs) = length bs div 2"
  by (induction bs rule: int16_pairs.induct) auto

lemma nth_int16_pairs:
  "k < length bs div 2 \<Longrightarrow> int16_pairs bs ! k = word_cat (bs ! (2 * k + 1)) (bs ! (2 * k))"
proof (induction bs arbitrary: k rule: int16_pairs.induct)
  case (1 lo hi rest)
  then show ?case by (cases k) auto
qed auto

lemma length_fill_frames:
  "length (fill_frames d n c fc i cd) = length cd"
  by (induction d n c fc i cd rule: fill_frames.induct) (subst fill_frames.simps, simp)

lemma nth_fill_frames:
  "j < length cd \<Longrightarrow>
   fill_frames d n c fc i cd ! j =
     (if i \<le> j \<and> real j < fc then sample_at d (j * n + c) else cd ! j)"
proof (induction d n c fc i cd rule: fill_frames.induct)
  case (1 d n c fc i cd)
  show ?case
  proof (cases "real i < fc")
    case True
    with 1 show ?thesis
      by (subst fill_frames.simps) (auto simp: nth_list_update not_less_eq_eq)
  next
    case False
    then show ?thesis
      by (subst fill_frames.simps) auto
  qed
qed

lemma fill_channels_result:
  "length (channels b) = n \<Longrightarrow> c \<le> n \<Longrightarrow>
   \<exists>b'. fill_channels d n fc c b = Inr b'
      \<and> numberOfChannels b' = numberOfChannels b \<and> length_buf b' = length_buf b
      \<and> sampleRate b' = sampleRate b \<and> length (channels b') = n
      \<and> (\<forall>k<n. channels b' ! k =
            (if c \<le> k then fill_frames d n k fc 0 (channels b ! k) else channels b ! k))"
proof (induction d n fc c b rule: fill_channels.induct)
  case (1 d n fc c b)
  show ?case
  proof (cases "c < n")
    case True
    let ?b1 = "b\<lparr>channels := (channels b)[c := fill_frames d n c fc 0 (channels b ! c)]\<rparr>"
    from True 1(2) have inr: "c < length (channels b)" by simp
    have "length (channels ?b1) = n" using 1(2) by simp
    moreover have "Suc c \<le> n" using True by simp
    ultimately obtain b' where b': "fill_channels d n fc (Suc c) ?b1 = Inr b'"
      "numberOfChannels b' = numberOfChannels ?b1" "length_buf b' = length_buf ?b1"
      "sampleRate b' = sampleRate ?b1" "length (channels b') = n"
      "\<forall>k<n. channels b' ! k =
            (if Suc c \<le> k then fill_frames d n k fc 0 (channels ?b1 ! k) else channels ?b1 ! k)"
      using 1(1)[OF True inr] by blast
    have eq: "fill_channels d n fc c b = Inr b'"
      using True inr b'(1) by (subst fill_channels.simps) simp
    have "\<forall>k<n. channels b' ! k =
            (if c \<le> k then fill_frames d n k fc 0 (channels b ! k) else channels b ! k)"
    proof (intro allI impI)
      fix k assume "k < n"
      with b'(6) 1(2) show "channels b' ! k =
            (if c \<le> k then fill_frames d n k fc 0 (channels b ! k) else channels b ! k)"
        by (cases "k = c") (auto simp: nth_list_update)
    qed
    with eq b' show ?thesis by simp
  next
    case False
    with 1(3) have "c = n" by simp
    then show ?thesis using 1(2) by (subst fill_channels.simps) simp
  qed
qed

lemma le_int16_range: "- 32768 \<le> le_int16 bytes k \<and> le_int16 bytes k < 32768"
  using sint_ge [where 'a = 16, of "word_cat (bytes ! (2 * k + 1)) (bytes ! (2 * k))"]
        sint_lt [where 'a = 16, of "word_cat (bytes ! (2 * k + 1)) (bytes ! (2 * k))"]
  by (simp add: le_int16_def)

lemma frame_index_in_range:
  assumes "0 < n" "c < n" "i < m div n"
  shows "i * n + c < (m :: nat)"
proof -
  have "i * n + c < Suc i * n" using assms by simp
  also have "\<dots> \<le> (m div n) * n" using assms by (intro mult_le_mono1) simp
  also have "\<dots> \<le> m" by simp
  finally show ?thesis .
qed

text \<open>
  C3, as the code has it. A byte buffer of even length that holds at least one whole frame,
  decoded with a channel count and a sample rate that \<^verbatim>\<open>createBuffer\<close> supports, gives a buffer
  whose frame count is the number of 16-bit samples divided by the channel count, rounded
  down; sample \<open>i\<close> of channel \<open>c\<close> is the signed 16-bit little-endian value at position
  \<open>i * numChannels + c\<close> divided by 32768, which lies between \<open>-1\<close> and \<open>1\<close>. Samples of a
  trailing partial frame are dropped.
\<close>

theorem decodeAudioData_frames:
  assumes ev: "even (length bytes)"
    and nc: "0 < numChannels" "numChannels \<le> maxChannels pf"
    and rate: "minSampleRate pf \<le> rate" "rate \<le> maxSampleRate pf"
    and frame: "numChannels \<le> length bytes div 2"
  shows "\<exists>b. decodeAudioData pf bytes rate numChannels = Inr b
     \<and> length_buf b = (length bytes div 2) div numChannels
     \<and> numberOfChannels b = numChannels \<and> sampleRate b = rate
     \<and> length (channels b) = numChannels
     \<and> (\<forall>c<numChannels. length (channels b ! c) = length_buf b
          \<and> (\<forall>i<length_buf b.
                channels b ! c ! i = Num (real_of_int (le_int16 bytes (i * numChannels + c)) / 32768)
                \<and> - 1 \<le> real_of_int (le_int16 bytes (i * numChannels + c)) / 32768
                \<and> real_of_int (le_int16 bytes (i * numChannels + c)) / 32768 \<le> 1))"
proof -
  let ?d = "int16_pairs bytes"
  let ?m = "length bytes div 2"
  let ?fc = "real (length ?d) / real numChannels"
  let ?len = "?m div numChannels"
  let ?b0 = "\<lparr>numberOfChannels = numChannels, length_buf = ?len, sampleRate = rate,
              channels = replicate numChannels (replicate ?len (Num 0))\<rparr>"
  have i16: "Int16Array bytes = Inr ?d"
    using ev by (simp add: Int16Array_def even_iff_mod_2_eq_zero)
  have len: "nat \<lfloor>?fc\<rfloor> = ?len"
    by (simp add: length_int16_pairs floor_divide_of_nat_eq)
  have pos: "0 < ?len" using nc frame by (simp add: div_greater_zero_iff)
  have cb: "createBuffer pf numChannels (nat \<lfloor>?fc\<rfloor>) rate = Inr ?b0"
    unfolding len using nc rate pos by (simp add: createBuffer_def)
  have "length (channels ?b0) = numChannels" by simp
  then obtain b where b: "fill_channels ?d numChannels ?fc 0 ?b0 = Inr b"
    "numberOfChannels b = numberOfChannels ?b0" "length_buf b = length_buf ?b0"
    "sampleRate b = sampleRate ?b0" "length (channels b) = numChannels"
    "\<forall>k<numChannels. channels b ! k =
        (if 0 \<le> k then fill_frames ?d numChannels k ?fc 0 (channels ?b0 ! k) else channels ?b0 ! k)"
    using fill_channels_result [of ?b0 numChannels 0 ?d ?fc] by blast
  have dec: "decodeAudioData pf bytes rate numChannels = Inr b"
    by (simp add: decodeAudioData_def i16 cb b(1) Let_def)
  have chan: "length (channels b ! c) = length_buf b
      \<and> (\<forall>i<length_buf b.
            channels b ! c ! i = Num (real_of_int (le_int16 bytes (i * numChannels + c)) / 32768)
            \<and> - 1 \<le> real_of_int (le_int16 bytes (i * numChannels + c)) / 32768
            \<and> real_of_int (le_int16 bytes (i * numChannels + c)) / 32768 \<le> 1)"
    if c: "c < numChannels" for c
  proof -
    have ck: "channels b ! c = fill_frames ?d numChannels c ?fc 0 (replicate ?len (Num 0))"
      using b(6) c by simp
    have l: "length (channels b ! c) = length_buf b"
      by (simp add: ck length_fill_frames b(3))
    have "channels b ! c ! i = Num (real_of_int (le_int16 bytes (i * numChannels + c)) / 32768)"
      if i: "i < ?len" for i
    proof -
      have idx: "i * numChannels + c < ?m"
        using frame_index_in_range [OF nc(1) c i] .
      have "real i < ?fc"
      proof -
        have "real (i * numChannels) < real ?m" using idx by linarith
        then show ?thesis using nc(1) by (simp add: length_int16_pairs pos_less_divide_eq)
      qed
      then have "channels b ! c ! i = sample_at ?d (i * numChannels + c)"
        using i by (simp add: ck nth_fill_frames)
      also have "\<dots> = Num (real_of_int (sint (?d ! (i * numChannels + c))) / 32768)"
        using idx by (simp add: sample_at_def length_int16_pairs)
      also have "?d ! (i * numChannels + c)
          = word_cat (bytes ! (2 * (i * numChannels + c) + 1)) (bytes ! (2 * (i * numChannels + c)))"
        using idx by (rule nth_int16_pairs)
      finally show ?thesis by (simp add: le_int16_def)
    qed
    moreover have "- 1 \<le> real_of_int (le_int16 bytes k) / 32768
        \<and> real_of_int (le_int16 bytes k) / 32768 \<le> 1" for k
      using le_int16_range [of bytes k] by simp
    ultimately show ?thesis using l b(3) by simp
  qed
  show ?thesis
    using dec b(2-5) chan by (intro exI [of _ b]) simp
qed

theorem decodeAudioData_frames_witness:
  "even (length [0, 128, 255, 127, 1, 0 :: 8 word])
   \<and> (\<exists>b. decodeAudioData \<lparr>maxChannels = 32, minSampleRate = 8000, maxSampleRate = 96000\<rparr> [0, 128, 255, 127, 1, 0] 24000 2 = Inr b
        \<and> length_buf b = 1 \<and> numberOfChannels b = 2 \<and> sampleRate b = 24000
        \<and> channels b ! 0 ! 0 = Num (real_of_int (le_int16 [0, 128, 255, 127, 1, 0] 0) / 32768)
        \<and> channels b ! 1 ! 0 = Num (real_of_int (le_int16 [0, 128, 255, 127, 1, 0] 1) / 32768))"
  using decodeAudioData_frames [of "[0, 128, 255, 127, 1, 0]" 2 "\<lparr>maxChannels = 32, minSampleRate = 8000, maxSampleRate = 96000\<rparr>" 24000]
  by auto

text \<open>
  C3 as stated fails on the empty buffer, which has even length: the frame count is \<open>0\<close>
  and \<^verbatim>\<open>createBuffer\<close> rejects a length of zero, so no buffer is returned.
\<close>

theorem decodeAudioData_empty_counterexample:
  "even (length ([] :: 8 word list))
   \<and> decodeAudioData \<lparr>maxChannels = 32, minSampleRate = 8000, maxSampleRate = 96000\<rparr> [] 24000 1 = Inl NotSupportedError"
  by (simp add: decodeAudioData_def Int16Array_def createBuffer_def)

text \<open>
  C4. Decoding a byte buffer of odd length always fails: the 16-bit view cannot be built,
  whatever the sample rate and the channel count are. The \<open>RangeError\<close> of the typed-array
  constructor is the failure that the specification names MalformedAudioError.
\<close>

theorem decodeAudioData_odd:
  "odd (length bytes) \<Longrightarrow> decodeAudioData pf bytes rate numChannels = Inl RangeError"
  by (simp add: decodeAudioData_def Int16Array_def odd_iff_mod_2_eq_one)


theorem decodeAudioData_odd_witness:
  "odd (length [7 :: 8 word]) \<and> decodeAudioData \<lparr>maxChannels = 32, minSampleRate = 8000, maxSampleRate = 96000\<rparr> [7] 24000 1 = Inl RangeError"
  using decodeAudioData_odd [of "[7]" "\<lparr>maxChannels = 32, minSampleRate = 8000, maxSampleRate = 96000\<rparr>" 24000 1]
  by simp

section \<open>Properties of speech synthesis and image processing\<close>

lemma first_of_None_base64Audio: "first_of (candidates r) = None \<Longrightarrow> base64Audio r = None"
  by (simp add: base64Audio_def)

lemma generateSpeech_no_audio:
  "generateContent env text = Inr r \<Longrightarrow> base64Audio r = None \<Longrightarrow>
   generateSpeech env text language = Inl (Error ''Failed to generate speech.'')"
  by (simp add: generateSpeech_def generateSpeech_try_def split: sum.splits)

lemma generateSpeech_call_error:
  "generateContent env text = Inl e \<Longrightarrow>
   generateSpeech env text language = Inl (Error ''Failed to generate speech.'')"
  by (simp add: generateSpeech_def generateSpeech_try_def split: sum.splits)

text \<open>
  C5. \<^verbatim>\<open>generateSpeech\<close> fails when the provider call is rejected, when the response has no
  candidate (the list is missing or empty), and when the response has no inline audio
  payload; in each case the caller gets the same error, the one that the outer \<^verbatim>\<open>catch\<close>
  throws.
\<close>

theorem generateSpeech_failure_uniform:
  assumes "generateContent env text = Inl e
     \<or> (generateContent env text = Inr r
          \<and> (candidates r = None \<or> candidates r = Some [] \<or> base64Audio r = None))"
  shows "generateSpeech env text language = Inl (Error ''Failed to generate speech.'')"
proof -
  consider (err) "generateContent env text = Inl e"
    | (resp) "generateContent env text = Inr r" "base64Audio r = None"
    using assms by (auto simp: first_of_None_base64Audio first_of_def)
  then show ?thesis
    by cases (auto intro: generateSpeech_call_error generateSpeech_no_audio)
qed

theorem generateSpeech_failure_uniform_witness:
  "generateSpeech \<lparr>apiKey = ''k'', generateContent = (\<lambda>t. Inl ProviderError), atob = (\<lambda>b. Inr b),
       newDecodeContext = None, closeDecodeContext = None,
       limits = \<lparr>maxChannels = 32, minSampleRate = 8000, maxSampleRate = 96000\<rparr>\<rparr> ''Hello'' ''Spanish''
     = Inl (Error ''Failed to generate speech.'')
   \<and> generateSpeech \<lparr>apiKey = ''k'', generateContent = (\<lambda>t. Inr (Response (Some []))), atob = (\<lambda>b. Inr b),
       newDecodeContext = None, closeDecodeContext = None,
       limits = \<lparr>maxChannels = 32, minSampleRate = 8000, maxSampleRate = 96000\<rparr>\<rparr> ''Hello'' ''Spanish''
     = Inl (Error ''Failed to generate speech.'')
   \<and> generateSpeech \<lparr>apiKey = ''k'',
       generateContent = (\<lambda>t. Inr (Response (Some [Candidate (Some (Content (Some [Part None])))]))),
       atob = (\<lambda>b. Inr b),
       newDecodeContext = None, closeDecodeContext = None,
       limits = \<lparr>maxChannels = 32, minSampleRate = 8000, maxSampleRate = 96000\<rparr>\<rparr> ''Hello'' ''Spanish''
     = Inl (Error ''Failed to generate speech.'')"
  using generateSpeech_failure_uniform [of
      "\<lparr>apiKey = ''k'', generateContent = (\<lambda>t. Inl ProviderError), atob = (\<lambda>b. Inr b),
       newDecodeContext = None, closeDecodeContext = None,
       limits = \<lparr>maxChannels = 32, minSampleRate = 8000, maxSampleRate = 96000\<rparr>\<rparr>"
      "''Hello''" ProviderError "Response None" "''Spanish''"]
    generateSpeech_failure_uniform [of
      "\<lparr>apiKey = ''k'', generateContent = (\<lambda>t. Inr (Response (Some []))), atob = (\<lambda>b. Inr b),
       newDecodeContext = None, closeDecodeContext = None,
       limits = \<lparr>maxChannels = 32, minSampleRate = 8000, maxSampleRate = 96000\<rparr>\<rparr>"
      "''Hello''" ProviderError "Response (Some [])" "''Spanish''"]
    generateSpeech_failure_uniform [of
      "\<lparr>apiKey = ''k'',
       generateContent = (\<lambda>t. Inr (Response (Some [Candidate (Some (Content (Some [Part None])))]))),
       atob = (\<lambda>b. Inr b),
       newDecodeContext = None, closeDecodeContext = None,
       limits = \<lparr>maxChannels = 32, minSampleRate = 8000, maxSampleRate = 96000\<rparr>\<rparr>"
      "''Hello''" ProviderError "Response (Some [Candidate (Some (Content (Some [Part None])))])" "''Spanish''"]
  by (simp add: base64Audio_def first_of_def)

lemma toLowerCase_append: "toLowerCase (a @ b) = toLowerCase a @ toLowerCase b"
  by (simp add: toLowerCase_def)

lemma field_set_requiresAudit:
  "field (set_requiresAudit d) k =
     (case d of JObject m \<Rightarrow> if k = ''requiresAudit'' then Some (JBool True) else field d k
      | _ \<Rightarrow> field d k)"
  by (cases d) (auto simp: set_requiresAudit_def field_def update_conv')

lemma originalText_lower_Inr:
  "originalText_lower d = Inr l \<Longrightarrow>
   \<exists>m s. d = JObject m \<and> field d ''originalText'' = Some (JString s) \<and> l = toLowerCase s"
  by (auto simp: originalText_lower_def field_def split: json.splits option.splits)

text \<open>
  C10. Whenever \<^verbatim>\<open>processImage\<close> returns a result whose \<open>originalText\<close> has a substring that
  equals one of the critical keywords up to the case of its letters, the \<open>requiresAudit\<close>
  flag of the result is \<open>true\<close>, whatever flag the provider's JSON carried.
\<close>

theorem processImage_requiresAudit:
  assumes ret: "processImage env = Inr d"
    and orig: "field d ''originalText'' = Some (JString t)"
    and occ: "t = pre @ mid @ suf" "toLowerCase mid = kw"
    and kw: "kw \<in> set CRITICAL_KEYWORDS"
  shows "field d ''requiresAudit'' = Some (JBool True)"
proof -
  from ret obtain d0 l where d0: "originalText_lower d0 = Inr l"
    and d: "d = (if list_ex (\<lambda>kw. includes_str l kw) CRITICAL_KEYWORDS then set_requiresAudit d0 else d0)"
    by (auto simp: processImage_def processImage_try_def Let_def
             split: sum.splits option.splits if_splits)
  from originalText_lower_Inr [OF d0] obtain m s where m: "d0 = JObject m"
    and s: "field d0 ''originalText'' = Some (JString s)" and l: "l = toLowerCase s"
    by blast
  have "field d ''originalText'' = field d0 ''originalText''"
    using d m by (simp add: field_set_requiresAudit)
  with orig s have "s = t" by simp
  then have "l = toLowerCase pre @ kw @ toLowerCase suf"
    using l occ by (simp add: toLowerCase_append)
  then have "includes_str l kw"
    by (auto simp: includes_str_def sublist_def)
  with kw have "list_ex (\<lambda>kw. includes_str l kw) CRITICAL_KEYWORDS"
    by (auto simp: list_ex_iff)
  with d m show ?thesis
    by (simp add: field_set_requiresAudit)
qed


theorem processImage_requiresAudit_witness:
  "processImage \<lparr>visionKey = ''k'', visionText = Inr (Some ''{}''),
       JSON_parse = (\<lambda>t. Inr (JObject [(''originalText'', JString ''Take MediCine''),
                                          (''requiresAudit'', JBool False)]))\<rparr>
     = Inr (JObject [(''originalText'', JString ''Take MediCine''), (''requiresAudit'', JBool True)])
   \<and> field (JObject [(''originalText'', JString ''Take MediCine''), (''requiresAudit'', JBool True)])
       ''requiresAudit'' = Some (JBool True)"
proof -
  have 1: "processImage \<lparr>visionKey = ''k'', visionText = Inr (Some ''{}''),
       JSON_parse = (\<lambda>t. Inr (JObject [(''originalText'', JString ''Take MediCine''),
                                          (''requiresAudit'', JBool False)]))\<rparr>
     = Inr (JObject [(''originalText'', JString ''Take MediCine''), (''requiresAudit'', JBool True)])"
    by code_simp
  have 2: "field (JObject [(''originalText'', JString ''Take MediCine''), (''requiresAudit'', JBool True)])
     ''originalText'' = Some (JString ''Take MediCine'')"
    by (simp add: field_def)
  have 3: "''Take MediCine'' = ''Take '' @ ''MediCine'' @ []"
    by simp
  have 4: "toLowerCase ''MediCine'' = ''medicine''"
    by code_simp
  have 5: "''medicine'' \<in> set CRITICAL_KEYWORDS"
    by (simp add: CRITICAL_KEYWORDS_def)
  show ?thesis
    using 1 processImage_requiresAudit [OF 1 2 3 4 5] by simp
qed

section \<open>Properties of the reader view\<close>

lemmas view_defs = run_def step_def handlePlay_def handlePlay_speech_def handlePlay_resumed_def
  playBuffer_def resumeOrStart_def startSource_def playback_failed_def stopAudio_def settle_def
  remove_nth_def handleLanguageChange_def handleLanguageChange_translated_def unmount_def
  initial_view_def cacheKey_def TextType_str_def playback_state_def Let_def

lemma stopAudio_simps [simp]:
  "activeAudioType (stopAudio oc s) = None"
  "audioSourceRef (stopAudio oc s) = None"
  "loadingAudioType (stopAudio oc s) = loadingAudioType s"
  "alerts (stopAudio oc s) = alerts s"
  "speechCalls (stopAudio oc s) = speechCalls s"
  "pending (stopAudio oc s) = pending s"
  "audioCache (stopAudio oc s) = audioCache s"
  "audioContextRef (stopAudio oc s) = audioContextRef s"
  "contextsCreated (stopAudio oc s) = contextsCreated s"
  "closeCalls (stopAudio oc s) = closeCalls s"
  "currentLanguage (stopAudio oc s) = currentLanguage s"
  "sources (stopAudio oc s) = sources s"
  by (simp_all add: stopAudio_def split: option.splits)








lemma speechCalls_playBuffer [simp]: "speechCalls (playBuffer oc ty b s) = speechCalls s"
  by (simp add: playBuffer_def resumeOrStart_def startSource_def playback_failed_def
        split: option.splits sum.splits)

lemma audioCache_playBuffer [simp]: "audioCache (playBuffer oc ty b s) = audioCache s"
  by (simp add: playBuffer_def resumeOrStart_def startSource_def playback_failed_def
        split: option.splits sum.splits)







subsection \<open>Superseded play requests\<close>





lemma typed_stopAudio: "typed V s \<Longrightarrow> typed V (stopAudio oc s)"
  by (simp add: typed_def)
















subsection \<open>The audio cache\<close>

text \<open>
  C2, on a language that is visited twice. The view starts in Spanish and plays the
  translation; the user switches to French and back to Spanish, and the second translation
  into Spanish gives another text. \<^verbatim>\<open>handleLanguageChange\<close> deletes the key \<open>translated\<close>,
  under which \<^verbatim>\<open>handlePlay\<close> stores nothing, so the entry \<open>translated_Spanish\<close> of the first
  visit is still there: the play of the new text issues no synthesis call and starts a source
  on the old buffer.
\<close>

theorem language_change_keeps_stale_translation_audio:
  "translatedText_st
     (run \<lparr>content_of = \<lparr>originalText = ''Hello world'', simplifiedText = ''Hello'', translatedText = ''Hola''\<rparr>, settings = \<lparr>targetLanguage = ''Spanish''\<rparr>\<rparr>
        [(\<lparr>stopThrows = None, newAudioContext = Inr running\<rparr>, Click_Play translated ''Hola''),
         (\<lparr>stopThrows = None, newAudioContext = Inr running\<rparr>, Settle 0 (SpeechSettled (Inr \<lparr>numberOfChannels = 1, length_buf = 1, sampleRate = 24000, channels = [[Num 0]]\<rparr>))),
         (\<lparr>stopThrows = None, newAudioContext = Inr running\<rparr>, Select_Language ''French''),
         (\<lparr>stopThrows = None, newAudioContext = Inr running\<rparr>, Settle 0 (TranslateSettled (Inr ''Bonjour''))),
         (\<lparr>stopThrows = None, newAudioContext = Inr running\<rparr>, Select_Language ''Spanish''),
         (\<lparr>stopThrows = None, newAudioContext = Inr running\<rparr>, Settle 0 (TranslateSettled (Inr ''Hola mundo'')))]
        (initial_view \<lparr>content_of = \<lparr>originalText = ''Hello world'', simplifiedText = ''Hello'', translatedText = ''Hola''\<rparr>, settings = \<lparr>targetLanguage = ''Spanish''\<rparr>\<rparr>))
   = ''Hola mundo''
   \<and> audioCache
     (run \<lparr>content_of = \<lparr>originalText = ''Hello world'', simplifiedText = ''Hello'', translatedText = ''Hola''\<rparr>, settings = \<lparr>targetLanguage = ''Spanish''\<rparr>\<rparr>
        [(\<lparr>stopThrows = None, newAudioContext = Inr running\<rparr>, Click_Play translated ''Hola''),
         (\<lparr>stopThrows = None, newAudioContext = Inr running\<rparr>, Settle 0 (SpeechSettled (Inr \<lparr>numberOfChannels = 1, length_buf = 1, sampleRate = 24000, channels = [[Num 0]]\<rparr>))),
         (\<lparr>stopThrows = None, newAudioContext = Inr running\<rparr>, Select_Language ''French''),
         (\<lparr>stopThrows = None, newAudioContext = Inr running\<rparr>, Settle 0 (TranslateSettled (Inr ''Bonjour''))),
         (\<lparr>stopThrows = None, newAudioContext = Inr running\<rparr>, Select_Language ''Spanish''),
         (\<lparr>stopThrows = None, newAudioContext = Inr running\<rparr>, Settle 0 (TranslateSettled (Inr ''Hola mundo'')))]
        (initial_view \<lparr>content_of = \<lparr>originalText = ''Hello world'', simplifiedText = ''Hello'', translatedText = ''Hola''\<rparr>, settings = \<lparr>targetLanguage = ''Spanish''\<rparr>\<rparr>)) ''translated_Spanish''
   = Some \<lparr>numberOfChannels = 1, length_buf = 1, sampleRate = 24000, channels = [[Num 0]]\<rparr>
   \<and> speechCalls
     (run \<lparr>content_of = \<lparr>originalText = ''Hello world'', simplifiedText = ''Hello'', translatedText = ''Hola''\<rparr>, settings = \<lparr>targetLanguage = ''Spanish''\<rparr>\<rparr>
        [(\<lparr>stopThrows = None, newAudioContext = Inr running\<rparr>, Click_Play translated ''Hola''),
         (\<lparr>stopThrows = None, newAudioContext = Inr running\<rparr>, Settle 0 (SpeechSettled (Inr \<lparr>numberOfChannels = 1, length_buf = 1, sampleRate = 24000, channels = [[Num 0]]\<rparr>))),
         (\<lparr>stopThrows = None, newAudioContext = Inr running\<rparr>, Select_Language ''French''),
         (\<lparr>stopThrows = None, newAudioContext = Inr running\<rparr>, Settle 0 (TranslateSettled (Inr ''Bonjour''))),
         (\<lparr>stopThrows = None, newAudioContext = Inr running\<rparr>, Select_Language ''Spanish''),
         (\<lparr>stopThrows = None, newAudioContext = Inr running\<rparr>, Settle 0 (TranslateSettled (Inr ''Hola mundo''))),
         (\<lparr>stopThrows = None, newAudioContext = Inr running\<rparr>, Click_Play translated ''Hola mundo'')]
        (initial_view \<lparr>content_of = \<lparr>originalText = ''Hello world'', simplifiedText = ''Hello'', translatedText = ''Hola''\<rparr>, settings = \<lparr>targetLanguage = ''Spanish''\<rparr>\<rparr>))
   = [(''Hola'', ''Spanish'')]
   \<and> sources
     (run \<lparr>content_of = \<lparr>originalText = ''Hello world'', simplifiedText = ''Hello'', translatedText = ''Hola''\<rparr>, settings = \<lparr>targetLanguage = ''Spanish''\<rparr>\<rparr>
        [(\<lparr>stopThrows = None, newAudioContext = Inr running\<rparr>, Click_Play translated ''Hola''),
         (\<lparr>stopThrows = None, newAudioContext = Inr running\<rparr>, Settle 0 (SpeechSettled (Inr \<lparr>numberOfChannels = 1, length_buf = 1, sampleRate = 24000, channels = [[Num 0]]\<rparr>))),
         (\<lparr>stopThrows = None, newAudioContext = Inr running\<rparr>, Select_Language ''French''),
         (\<lparr>stopThrows = None, newAudioContext = Inr running\<rparr>, Settle 0 (TranslateSettled (Inr ''Bonjour''))),
         (\<lparr>stopThrows = None, newAudioContext = Inr running\<rparr>, Select_Language ''Spanish''),
         (\<lparr>stopThrows = None, newAudioContext = Inr running\<rparr>, Settle 0 (TranslateSettled (Inr ''Hola mundo''))),
         (\<lparr>stopThrows = None, newAudioContext = Inr running\<rparr>, Click_Play translated ''Hola mundo'')]
        (initial_view \<lparr>content_of = \<lparr>originalText = ''Hello world'', simplifiedText = ''Hello'', translatedText = ''Hola''\<rparr>, settings = \<lparr>targetLanguage = ''Spanish''\<rparr>\<rparr>))
   = [\<lparr>numberOfChannels = 1, length_buf = 1, sampleRate = 24000, channels = [[Num 0]]\<rparr>, \<lparr>numberOfChannels = 1, length_buf = 1, sampleRate = 24000, channels = [[Num 0]]\<rparr>]"
  by (simp add: view_defs)










lemma audioCache_handlePlay [simp]: "audioCache (handlePlay p oc ty tx s) = audioCache s"
  by (cases "audioCache s (cacheKey ty (currentLanguage s))")
     (simp_all add: handlePlay_def Let_def)








subsection \<open>Stopping and empty requests\<close>



text \<open>
  C9. A play request with an empty text does what a stop does and nothing more: it issues no
  synthesis call, suspends at no \<^verbatim>\<open>await\<close>, raises no alert and does not set the loading
  flag.
\<close>

theorem handlePlay_empty_text:
  "handlePlay p oc type [] s = stopAudio oc s
   \<and> speechCalls (handlePlay p oc type [] s) = speechCalls s
   \<and> pending (handlePlay p oc type [] s) = pending s
   \<and> alerts (handlePlay p oc type [] s) = alerts s
   \<and> loadingAudioType (handlePlay p oc type [] s) = loadingAudioType s"
  by (simp add: handlePlay_def)

subsection \<open>The output context\<close>

lemma ctx_part_simps [simp]:
  "ctx_part (stopAudio oc s) = ctx_part s"
  "ctx_part (playback_failed s) = ctx_part s"
  "ctx_part (startSource type buffer s) = ctx_part s"
  "ctx_part (resumeOrStart type buffer s) = ctx_part s"
  "ctx_part (handleLanguageChange oc newLang s) = ctx_part s"
  "ctx_part (handleLanguageChange_translated r s) = ctx_part s"
  "ctx_part (s\<lparr>pending := ps\<rparr>) = ctx_part s"
  "ctx_part (s\<lparr>loadingAudioType := l\<rparr>) = ctx_part s"
  "ctx_part (s\<lparr>activeAudioType := a\<rparr>) = ctx_part s"
  "ctx_part (s\<lparr>audioCache := c\<rparr>) = ctx_part s"
  "ctx_part (s\<lparr>speechCalls := sc\<rparr>) = ctx_part s"
  by (simp_all add: ctx_part_def playback_failed_def startSource_def resumeOrStart_def
        handleLanguageChange_def handleLanguageChange_translated_def Let_def split: sum.splits)
































end
